theory Spec2Isabelle
  imports Main
begin

section \<open>Red-Oak: the Airtable serverless function\<close>

text \<open>
  The repository holds the same function twice: \<^verbatim>\<open>src/serverless-airtable.js\<close>, the generic
  version, and the Vercel version (second half of \<^verbatim>\<open>src/unnamed/part_000\<close>). Both consist of
  \<^verbatim>\<open>buildAirtableURL\<close>, \<^verbatim>\<open>fetchPage\<close>, \<^verbatim>\<open>fetchAllRecords\<close> and \<^verbatim>\<open>handler\<close>; they differ in the
  table identifier, in the text of the error raised for a non-ok response and in the way
  \<^verbatim>\<open>handler\<close> classifies an error. The model has one definition per source function, with
  the file as its first argument, and writes out the difference where there is one.
  Console logging is left out: nothing the functions return depends on it. The local test
  script (first half of \<^verbatim>\<open>src/unnamed/part_000\<close>), which repeats the logic once more for a
  mock request, and \<^verbatim>\<open>src/test-api.js\<close> are not modelled; the latter's second URL is the
  query string proved for \<^verbatim>\<open>buildAirtableURL\<close> below.
\<close>

datatype variant = Generic | Vercel

subsection \<open>JavaScript values the code tests for truthiness\<close>

text \<open>
  An environment variable, the \<^verbatim>\<open>offset\<close> variable and the \<^verbatim>\<open>offset\<close> argument are
  \<^verbatim>\<open>undefined\<close>/\<^verbatim>\<open>null\<close> (\<open>None\<close>) or a string. JavaScript treats the empty string as false.
  A string is a list, of bytes or of the units introduced below.
\<close>

fun truthy :: "'a list option \<Rightarrow> bool" where
  "truthy None = False"
| "truthy (Some s) = (s \<noteq> [])"

text \<open>A template literal renders \<^verbatim>\<open>undefined\<close> as the text \<^verbatim>\<open>undefined\<close>.\<close>

fun template :: "string option \<Rightarrow> string" where
  "template None = ''undefined''"
| "template (Some s) = s"

text \<open>\<^verbatim>\<open>a || b\<close> on such values.\<close>

definition or_else :: "'a list option \<Rightarrow> 'a list option \<Rightarrow> 'a list option" where
  "or_else a b = (if truthy a then a else b)"

subsection \<open>Strings: decimal numbers, \<^verbatim>\<open>includes\<close>, percent-encoding\<close>

text \<open>
  A well-formed string stands as its UTF-8 bytes. A string that \<^verbatim>\<open>JSON.parse\<close> produces can
  also hold a surrogate code unit that has no partner; the continuation token is the one
  such string the program handles. It is a list of units: a byte of the UTF-8 form of its
  well-formed parts, or a lone surrogate (with its code). \<open>plain\<close> embeds a well-formed
  string. \<open>toUSVString\<close> is the conversion that \<^verbatim>\<open>URLSearchParams.prototype.append\<close> applies
  to its arguments: each lone surrogate becomes U+FFFD, in UTF-8 the bytes EF BF BD.
\<close>

datatype code_unit = Byte char | LoneSurrogate nat

type_synonym js_string = "code_unit list"

definition plain :: "string \<Rightarrow> js_string" where
  "plain s = map Byte s"

definition toUSVString :: "js_string \<Rightarrow> string" where
  "toUSVString s =
     concat (map (\<lambda>u. case u of Byte c \<Rightarrow> [c]
                            | LoneSurrogate _ \<Rightarrow> [CHR 0xEF, CHR 0xBF, CHR 0xBD]) s)"

text \<open>\<^verbatim>\<open>Number.prototype.toString\<close> on a natural number:\<close>

definition digit_char :: "nat \<Rightarrow> char" where
  "digit_char d = ''0123456789ABCDEF'' ! d"

fun toString :: "nat \<Rightarrow> string" where
  "toString n = (if n < 10 then [digit_char n] else toString (n div 10) @ [digit_char (n mod 10)])"

declare toString.simps [simp del]

text \<open>\<^verbatim>\<open>String.prototype.startsWith\<close> and \<^verbatim>\<open>String.prototype.includes\<close>.\<close>

fun startsWith :: "string \<Rightarrow> string \<Rightarrow> bool" where
  "startsWith s [] = True"
| "startsWith [] (c # t) = False"
| "startsWith (d # s) (c # t) = (d = c \<and> startsWith s t)"

fun includes_str :: "string \<Rightarrow> string \<Rightarrow> bool" where
  "includes_str [] t = (t = [])"
| "includes_str (d # s) t = (startsWith (d # s) t \<or> includes_str s t)"

text \<open>
  Percent-encoding of one byte, \<^verbatim>\<open>%HH\<close> with upper-case hexadecimal digits.
\<close>

definition percent :: "char \<Rightarrow> string" where
  "percent c = [CHR ''%'', digit_char (of_char c div 16), digit_char (of_char c mod 16)]"

definition alphanumeric :: "char set" where
  "alphanumeric = set ''ABCDEFGHIJKLMNOPQRSTUVWXYZabcdefghijklmnopqrstuvwxyz0123456789''"

text \<open>
  \<^verbatim>\<open>encodeURIComponent\<close> keeps the alphanumerics and \<^verbatim>\<open>- _ . ! ~ * ' ( )\<close> and
  percent-encodes every other byte of the UTF-8 form.
\<close>

definition encodeURIComponent :: "string \<Rightarrow> string" where
  "encodeURIComponent s =
     concat (map (\<lambda>c. if c \<in> alphanumeric \<union> set ''-_.!~*'' \<union> {CHR 0x27, CHR ''('', CHR '')''}
                       then [c] else percent c) s)"

text \<open>
  \<^verbatim>\<open>URLSearchParams.prototype.toString\<close> is the \<^verbatim>\<open>application/x-www-form-urlencoded\<close>
  serialiser: in names and values a space becomes \<^verbatim>\<open>+\<close>, the alphanumerics and
  \<^verbatim>\<open>* - . _\<close> stay, every other byte is percent-encoded; pairs are \<^verbatim>\<open>name=value\<close>
  joined by \<^verbatim>\<open>&\<close>.
\<close>

definition formByte :: "char \<Rightarrow> string" where
  "formByte c =
     (if c = CHR '' '' then ''+''
      else if c \<in> alphanumeric \<union> set ''*-._'' then [c]
      else percent c)"

definition formEncode :: "string \<Rightarrow> string" where
  "formEncode s = concat (map formByte s)"

fun paramsToString :: "(string \<times> string) list \<Rightarrow> string" where
  "paramsToString [] = []"
| "paramsToString [(k, v)] = formEncode k @ ''='' @ formEncode v"
| "paramsToString ((k, v) # p # ps) =
     formEncode k @ ''='' @ formEncode v @ ''&'' @ paramsToString (p # ps)"

subsection \<open>Configuration\<close>

text \<open>
  \<^verbatim>\<open>process.env\<close>, read once when the module is loaded. \<^verbatim>\<open>AIRTABLE_TABLE_ID\<close> is read by
  the Vercel version only.
\<close>

record env =
  env_AIRTABLE_API_KEY :: "string option"
  env_AIRTABLE_BASE_ID :: "string option"
  env_AIRTABLE_TABLE_ID :: "string option"
  env_NODE_ENV :: "string option"

definition AIRTABLE_TABLE_ID :: "env \<Rightarrow> string option" where
  "AIRTABLE_TABLE_ID e = or_else (env_AIRTABLE_TABLE_ID e) (Some ''tblDrUWfwkwMQM9yR'')"

definition TABLE_NAME :: string where
  "TABLE_NAME = ''TableName''"

definition PAGE_SIZE :: nat where
  "PAGE_SIZE = 50"

definition FILTER_FORMULA :: string where
  "FILTER_FORMULA = ''NOT({Status}='' @ [CHR 0x27] @ ''Done'' @ [CHR 0x27] @ '')''"

definition SORT_FIELD :: string where
  "SORT_FIELD = ''Name''"

definition SORT_DIRECTION :: string where
  "SORT_DIRECTION = ''asc''"

subsection \<open>\<^verbatim>\<open>buildAirtableURL\<close>\<close>

text \<open>
  \<open>buildParams\<close> is the \<^verbatim>\<open>URLSearchParams\<close> object \<^verbatim>\<open>params\<close> after the appends,
  \<open>tablePath\<close> the last path segment: \<^verbatim>\<open>encodeURIComponent(TABLE_NAME)\<close> in the generic
  version, \<^verbatim>\<open>AIRTABLE_TABLE_ID\<close> as it is in the Vercel version.
\<close>

definition buildParams :: "js_string option \<Rightarrow> (string \<times> string) list" where
  "buildParams offset =
     [(''filterByFormula'', FILTER_FORMULA),
      (''sort[0][field]'', SORT_FIELD),
      (''sort[0][direction]'', SORT_DIRECTION),
      (''pageSize'', toString PAGE_SIZE)]
     @ (case offset of
          None \<Rightarrow> []
        | Some token \<Rightarrow>
            if truthy (Some token) then [(''offset'', toUSVString token)] else [])"

definition tablePath :: "variant \<Rightarrow> env \<Rightarrow> string" where
  "tablePath v e =
     (case v of Generic \<Rightarrow> encodeURIComponent TABLE_NAME
              | Vercel \<Rightarrow> template (AIRTABLE_TABLE_ID e))"

definition buildAirtableURL :: "variant \<Rightarrow> env \<Rightarrow> js_string option \<Rightarrow> string" where
  "buildAirtableURL v e offset =
     (let url = ''https://api.airtable.com/v0/'' @ template (env_AIRTABLE_BASE_ID e) @ ''/''
                @ tablePath v e
      in url @ ''?'' @ paramsToString (buildParams offset))"

subsection \<open>The upstream\<close>

text \<open>
  A field of the parsed response body is absent (\<^verbatim>\<open>undefined\<close>), \<^verbatim>\<open>null\<close> or has a value.
  As the upstream documents it, \<^verbatim>\<open>records\<close> is an array of records and \<^verbatim>\<open>offset\<close> a
  string; a record is never inspected and has the type \<open>'r\<close>. A body that is a number, a
  string, a boolean or an array has neither field.
\<close>

datatype 'a field = Missing | Null | Value 'a

record 'r data =
  data_records :: "'r list field"
  data_offset :: "js_string field"

text \<open>
  What the code observes of a response: \<^verbatim>\<open>response.status\<close>; \<^verbatim>\<open>response.text()\<close>;
  \<^verbatim>\<open>JSON.stringify(JSON.parse(text), null, 2)\<close> of that text, \<open>None\<close> when \<^verbatim>\<open>JSON.parse\<close>
  throws; \<^verbatim>\<open>response.json()\<close>, which rejects with an error (\<open>Inl\<close> its message) or yields
  the parsed body: \<open>None\<close> when the body is the JSON value \<^verbatim>\<open>null\<close>, the fields of any other
  value. An error is its \<^verbatim>\<open>message\<close>.
\<close>

record 'r response =
  status :: nat
  body_text :: string
  body_reformatted :: "string option"
  body_json :: "string + 'r data option"

text \<open>\<^verbatim>\<open>response.ok\<close>: the status is in the range 200 to 299.\<close>

definition ok :: "'r response \<Rightarrow> bool" where
  "ok response = (200 \<le> status response \<and> status response \<le> 299)"

text \<open>\<^verbatim>\<open>fetch\<close> rejects (a network failure, \<open>Rejected\<close> with the message) or resolves.\<close>

datatype 'r outcome = Rejected string | Resolved "'r response"

text \<open>
  The upstream gives the outcome of each network call of an invocation, the calls counted
  from 0. A request changes nothing in the run but the outcome it gets, so every
  behaviour of a server is one such sequence. The requests sent are recorded in a trace.
\<close>

type_synonym 'r upstream = "nat \<Rightarrow> 'r outcome"

record request =
  request_url :: string
  request_method :: string
  request_headers :: "(string \<times> string) list"

subsection \<open>\<^verbatim>\<open>fetchPage\<close>\<close>

record 'r page =
  page_records :: "'r list"
  page_offset :: "js_string option"
  page_hasMore :: bool

fun nullable :: "'a field \<Rightarrow> 'a option" where
  "nullable Missing = None"
| "nullable Null = None"
| "nullable (Value x) = Some x"

text \<open>
  The text after the status in the error of a non-ok response: the Vercel version
  re-serialises a body that is JSON.
\<close>

definition errorDetails :: "variant \<Rightarrow> 'r response \<Rightarrow> string" where
  "errorDetails v response =
     (case v of
        Generic \<Rightarrow> body_text response
      | Vercel \<Rightarrow> (case body_reformatted response of
                     None \<Rightarrow> body_text response
                   | Some errorJson \<Rightarrow> errorJson))"

text \<open>
  Reading \<^verbatim>\<open>data.records\<close> when \<^verbatim>\<open>data\<close> is \<^verbatim>\<open>null\<close> throws a \<^verbatim>\<open>TypeError\<close>; this is the message
  V8 gives it. Both versions read \<^verbatim>\<open>data.records\<close> before any other field.
\<close>

definition nullTypeError :: string where
  "nullTypeError =
     ''Cannot read properties of null (reading '' @ [CHR 0x27] @ ''records'' @ [CHR 0x27] @ '')''"

text \<open>
  \<open>readResponse\<close> is the part of \<^verbatim>\<open>fetchPage\<close> after the call of \<^verbatim>\<open>fetch\<close>: what
  \<^verbatim>\<open>fetchPage\<close> throws (\<open>Inl\<close>) or returns (\<open>Inr\<close>). An array is truthy, also when empty.
\<close>

definition readResponse :: "variant \<Rightarrow> 'r outcome \<Rightarrow> string + 'r page" where
  "readResponse v out =
     (case out of
        Rejected error \<Rightarrow> Inl error
      | Resolved response \<Rightarrow>
          if \<not> ok response
          then Inl (''Airtable API error ('' @ toString (status response) @ ''): ''
                    @ errorDetails v response)
          else (case body_json response of
                  Inl error \<Rightarrow> Inl error
                | Inr None \<Rightarrow> Inl nullTypeError
                | Inr (Some data) \<Rightarrow>
                    Inr \<lparr>page_records = (case data_records data of Value rs \<Rightarrow> rs | _ \<Rightarrow> []),
                         page_offset = or_else (nullable (data_offset data)) None,
                         page_hasMore = truthy (nullable (data_offset data))\<rparr>))"

definition buildRequest :: "variant \<Rightarrow> env \<Rightarrow> js_string option \<Rightarrow> request" where
  "buildRequest v e offset =
     \<lparr>request_url = buildAirtableURL v e offset,
      request_method = ''GET'',
      request_headers =
        [(''Authorization'', ''Bearer '' @ template (env_AIRTABLE_API_KEY e)),
         (''Content-Type'', ''application/json'')]\<rparr>"

definition fetchPage ::
  "variant \<Rightarrow> env \<Rightarrow> 'r upstream \<Rightarrow> request list \<Rightarrow> js_string option
     \<Rightarrow> (string + 'r page) \<times> request list" where
  "fetchPage v e up trace offset =
     (readResponse v (up (length trace)), trace @ [buildRequest v e offset])"

subsection \<open>\<^verbatim>\<open>fetchAllRecords\<close>\<close>

text \<open>
  The \<^verbatim>\<open>do ... while (offset)\<close> loop. It runs as long as the upstream hands out tokens, so
  it is a partial function: \<open>None\<close> is the run that never returns. A result is what
  \<^verbatim>\<open>fetchAllRecords\<close> throws or returns, with the requests sent. The Vercel version catches
  the error of \<^verbatim>\<open>fetchPage\<close>, logs it and throws it again.
\<close>

partial_function (option) fetchAllRecords_loop ::
  "variant \<Rightarrow> env \<Rightarrow> 'r upstream \<Rightarrow> 'r list \<Rightarrow> js_string option \<Rightarrow> request list
     \<Rightarrow> ((string + 'r list) \<times> request list) option" where
  "fetchAllRecords_loop v e up allRecords offset trace =
     (case fetchPage v e up trace offset of
        (Inl error, trace') \<Rightarrow> Some (Inl error, trace')
      | (Inr pageData, trace') \<Rightarrow>
          if truthy (page_offset pageData)
          then fetchAllRecords_loop v e up (allRecords @ page_records pageData)
                 (page_offset pageData) trace'
          else Some (Inr (allRecords @ page_records pageData), trace'))"

declare fetchAllRecords_loop.simps [code]

definition fetchAllRecords ::
  "variant \<Rightarrow> env \<Rightarrow> 'r upstream \<Rightarrow> ((string + 'r list) \<times> request list) option" where
  "fetchAllRecords v e up = fetchAllRecords_loop v e up [] None []"

subsection \<open>\<^verbatim>\<open>handler\<close>\<close>

text \<open>
  The JSON values the handler sends. \<open>JArr\<close> is the array of records; \<open>JRuntime\<close>
  stands for \<^verbatim>\<open>error.stack\<close>, a text the runtime chooses.
\<close>

datatype 'r json =
    JBool bool
  | JNum nat
  | JStr string
  | JArr "'r list"
  | JObj "(string \<times> 'r json) list"
  | JRuntime

text \<open>
  The response object \<^verbatim>\<open>res\<close>: \<^verbatim>\<open>res.setHeader\<close> (a header set twice keeps the later
  value), \<^verbatim>\<open>res.status\<close>, and the body that \<^verbatim>\<open>res.json\<close> sends (\<^verbatim>\<open>res.end()\<close> sends none).
  The platform hands the handler a response with no header and status 200.
\<close>

record 'r res =
  res_headers :: "(string \<times> string) list"
  res_statusCode :: nat
  res_body :: "'r json option"

definition setHeader :: "string \<Rightarrow> string \<Rightarrow> 'r res \<Rightarrow> 'r res" where
  "setHeader k x res =
     res\<lparr>res_headers := filter (\<lambda>h. fst h \<noteq> k) (res_headers res) @ [(k, x)]\<rparr>"

definition setCORSHeaders :: "'r res \<Rightarrow> 'r res" where
  "setCORSHeaders res =
     setHeader ''Content-Type'' ''application/json''
       (setHeader ''Access-Control-Max-Age'' ''86400''
         (setHeader ''Access-Control-Allow-Headers'' ''Content-Type, Authorization''
           (setHeader ''Access-Control-Allow-Methods'' ''GET, OPTIONS''
             (setHeader ''Access-Control-Allow-Origin'' ''*'' res))))"

definition send :: "nat \<Rightarrow> 'r json option \<Rightarrow> 'r res \<Rightarrow> 'r res" where
  "send code content res = res\<lparr>res_statusCode := code, res_body := content\<rparr>"

text \<open>
  The \<^verbatim>\<open>catch\<close> block of \<^verbatim>\<open>handler\<close>: the status code and the \<^verbatim>\<open>error\<close> field. Each test
  is \<^verbatim>\<open>error.message.includes(code) || error.message.includes(phrase)\<close>. The generic
  version has no rule for 429 and always answers \<^verbatim>\<open>Failed to fetch Airtable records\<close>.
\<close>

definition errorType :: "variant \<Rightarrow> string \<Rightarrow> string" where
  "errorType v t = (case v of Generic \<Rightarrow> ''Failed to fetch Airtable records'' | Vercel \<Rightarrow> t)"

definition mentions :: "string \<Rightarrow> string \<Rightarrow> string \<Rightarrow> bool" where
  "mentions message code phrase = (includes_str message code \<or> includes_str message phrase)"

definition classifyError :: "variant \<Rightarrow> string \<Rightarrow> nat \<times> string" where
  "classifyError v message =
     (if mentions message ''401'' ''Unauthorized''
      then (401, errorType v ''Authentication error'')
      else if mentions message ''403'' ''Forbidden''
      then (403, errorType v ''Permission denied'')
      else if mentions message ''404'' ''Not Found''
      then (404, errorType v ''Resource not found'')
      else if mentions message ''422'' ''Unprocessable''
      then (422, errorType v ''Invalid request'')
      else if v = Vercel \<and> mentions message ''429'' ''Too Many Requests''
      then (429, errorType v ''Rate limit exceeded'')
      else (500, errorType v ''Internal server error''))"

text \<open>
  The fields added to the error body when \<^verbatim>\<open>NODE_ENV\<close> is \<^verbatim>\<open>development\<close>.
\<close>

definition developmentFields :: "variant \<Rightarrow> env \<Rightarrow> (string \<times> 'r json) list" where
  "developmentFields v e =
     (if env_NODE_ENV e = Some ''development''
      then (case v of
              Generic \<Rightarrow> [(''stack'', JRuntime)]
            | Vercel \<Rightarrow> [(''stack'', JRuntime),
                         (''baseId'', JStr (template (env_AIRTABLE_BASE_ID e))),
                         (''tableId'', JStr (template (AIRTABLE_TABLE_ID e)))])
      else [])"

text \<open>
  The bodies of the early returns carry \<^verbatim>\<open>success: false\<close> in the Vercel version only.
\<close>

definition rejection :: "variant \<Rightarrow> string \<Rightarrow> string \<Rightarrow> 'r json" where
  "rejection v error message =
     JObj ((case v of Generic \<Rightarrow> [] | Vercel \<Rightarrow> [(''success'', JBool False)])
           @ [(''error'', JStr error), (''message'', JStr message)])"

definition tableLabel :: "variant \<Rightarrow> env \<Rightarrow> string" where
  "tableLabel v e = (case v of Generic \<Rightarrow> TABLE_NAME | Vercel \<Rightarrow> template (AIRTABLE_TABLE_ID e))"

text \<open>
  \<open>handler v e up m\<close> is the invocation for a request of method \<open>m\<close>: the response sent
  and the requests made upstream, or \<open>None\<close> when \<^verbatim>\<open>fetchAllRecords\<close> never returns.
\<close>

definition handler ::
  "variant \<Rightarrow> env \<Rightarrow> 'r upstream \<Rightarrow> string \<Rightarrow> ('r res \<times> request list) option" where
  "handler v e up req_method =
     (let res = setCORSHeaders \<lparr>res_headers = [], res_statusCode = 200, res_body = None\<rparr> in
      if req_method = ''OPTIONS'' then Some (send 200 None res, [])
      else if req_method \<noteq> ''GET''
      then Some (send 405 (Some (rejection v ''Method not allowed''
                                   ''Only GET requests are supported'')) res, [])
      else if \<not> truthy (env_AIRTABLE_API_KEY e)
      then Some (send 500 (Some (rejection v ''Server configuration error''
                                   ''AIRTABLE_API_KEY environment variable is not set'')) res, [])
      else if \<not> truthy (env_AIRTABLE_BASE_ID e)
      then Some (send 500 (Some (rejection v ''Server configuration error''
                                   ''AIRTABLE_BASE_ID environment variable is not set'')) res, [])
      else if v = Vercel \<and> \<not> truthy (AIRTABLE_TABLE_ID e)
      then Some (send 500 (Some (rejection v ''Server configuration error''
                                   ''AIRTABLE_TABLE_ID environment variable is not set'')) res, [])
      else (case fetchAllRecords v e up of
              None \<Rightarrow> None
            | Some (Inr allRecords, trace) \<Rightarrow>
                Some (send 200
                        (Some (JObj [(''success'', JBool True),
                                     (''records'', JArr allRecords),
                                     (''totalRecords'', JNum (length allRecords)),
                                     (''table'', JStr (tableLabel v e)),
                                     (''filter'', JStr FILTER_FORMULA),
                                     (''sort'', JObj [(''field'', JStr SORT_FIELD),
                                                      (''direction'', JStr SORT_DIRECTION)])]))
                        res, trace)
            | Some (Inl message, trace) \<Rightarrow>
                Some (send (fst (classifyError v message))
                        (Some (JObj ([(''success'', JBool False),
                                      (''error'', JStr (snd (classifyError v message))),
                                      (''message'', JStr message)]
                                     @ developmentFields v e)))
                        res, trace)))"

text \<open>Reading a field of the JSON object sent.\<close>

definition body_field :: "'r res \<Rightarrow> string \<Rightarrow> 'r json option" where
  "body_field res k = (case res_body res of Some (JObj members) \<Rightarrow> map_of members k | _ \<Rightarrow> None)"

subsection \<open>Concrete configurations and upstreams\<close>

text \<open>
  The scenarios of the specification, used to instantiate the theorems below. A record is
  given by its identifier. \<open>page_response\<close> is a response of status 200 whose body parses
  to the given \<^verbatim>\<open>records\<close> and \<^verbatim>\<open>offset\<close> fields; its text is not read.
\<close>

definition demo_env :: env where
  "demo_env = \<lparr>env_AIRTABLE_API_KEY = Some ''patDemo'', env_AIRTABLE_BASE_ID = Some ''appDemo'',
                env_AIRTABLE_TABLE_ID = None, env_NODE_ENV = None\<rparr>"

definition page_response :: "string list field \<Rightarrow> js_string field \<Rightarrow> string outcome" where
  "page_response rs token =
     Resolved \<lparr>status = 200, body_text = [], body_reformatted = None,
               body_json = Inr (Some \<lparr>data_records = rs, data_offset = token\<rparr>)\<rparr>"

definition error_response :: "nat \<Rightarrow> string \<Rightarrow> string outcome" where
  "error_response code text =
     Resolved \<lparr>status = code, body_text = text, body_reformatted = None,
               body_json = Inl ''Unexpected token''\<rparr>"

text \<open>Two pages, the first with the token \<^verbatim>\<open>tok1\<close>.\<close>

definition two_pages :: "string upstream" where
  "two_pages i =
     (if i = 0 then page_response (Value [''r1'']) (Value (plain ''tok1''))
      else page_response (Value [''r2'']) Null)"

text \<open>Status 401 with the body \<^verbatim>\<open>Unauthorized\<close> on every call.\<close>

definition unauthorized :: "string upstream" where
  "unauthorized i = error_response 401 ''Unauthorized''"

text \<open>A first page with the token \<^verbatim>\<open>tokA\<close>, then status 429.\<close>

definition rate_limited :: "string upstream" where
  "rate_limited i =
     (if i = 0 then page_response (Value [''r1'']) (Value (plain ''tokA''))
      else error_response 429 ''Too Many Requests'')"

text \<open>One page without a token; one page without records; a body without either field.\<close>

definition one_page :: "string upstream" where
  "one_page i = page_response (Value [''r1'']) Null"

definition empty_collection :: "string upstream" where
  "empty_collection i = page_response (Value []) Null"

definition bare_body :: "string upstream" where
  "bare_body i = page_response Missing Missing"

text \<open>A second page whose \<^verbatim>\<open>offset\<close> is the empty string, and a page that would follow.\<close>

definition empty_token :: "string upstream" where
  "empty_token i =
     (if i = 0 then page_response (Value [''r1'']) (Value (plain ''tok1''))
      else if i = 1 then page_response (Value [''r2'']) (Value [])
      else page_response (Value [''r3'']) Null)"


text \<open>Status 500 with the body \<^verbatim>\<open>Unauthorized\<close>.\<close>

definition gateway_error :: "string upstream" where
  "gateway_error i = error_response 500 ''Unauthorized''"

text \<open>Status 200 with the body \<^verbatim>\<open>null\<close>.\<close>

definition null_body :: "string upstream" where
  "null_body i =
     Resolved \<lparr>status = 200, body_text = ''null'', body_reformatted = Some ''null'',
               body_json = Inr None\<rparr>"

section \<open>Properties\<close>

subsection \<open>Tokens\<close>

lemma plain_Nil_iff [simp]: "plain s = [] \<longleftrightarrow> s = []"
  by (simp add: plain_def)

lemma toUSVString_plain [simp]: "toUSVString (plain s) = s"
  by (induction s) (simp_all add: toUSVString_def plain_def)

lemma toUSVString_Nil [simp]: "toUSVString [] = []"
  by (simp add: toUSVString_def)

lemma toUSVString_Nil_iff [simp]:
  "toUSVString s = [] \<longleftrightarrow> s = []" "[] = toUSVString s \<longleftrightarrow> s = []"
  by (cases s; simp add: toUSVString_def split: code_unit.splits)+

subsection \<open>Substrings\<close>

text \<open>
  \<open>includes_str s t\<close> holds exactly when \<open>t\<close> occurs in \<open>s\<close>, and the error raised for a
  non-ok response contains the status in decimal.
\<close>

lemma startsWith_iff: "startsWith s t \<longleftrightarrow> (\<exists>q. s = t @ q)"
  by (induction s t rule: startsWith.induct) auto

lemma includes_str_iff: "includes_str s t \<longleftrightarrow> (\<exists>p q. s = p @ t @ q)"
proof (induction s)
  case Nil
  show ?case by auto
next
  case (Cons d s)
  note IH = Cons.IH
  show ?case
  proof
    assume "includes_str (d # s) t"
    then consider "startsWith (d # s) t" | "includes_str s t" by auto
    then show "\<exists>p q. d # s = p @ t @ q"
    proof cases
      case 1
      then obtain q where "d # s = t @ q" using startsWith_iff by blast
      then have "d # s = [] @ t @ q" by simp
      then show ?thesis by blast
    next
      case 2
      with IH obtain p q where "s = p @ t @ q" by blast
      then have "d # s = (d # p) @ t @ q" by simp
      then show ?thesis by blast
    qed
  next
    assume "\<exists>p q. d # s = p @ t @ q"
    then obtain p q where pq: "d # s = p @ t @ q" by blast
    show "includes_str (d # s) t"
    proof (cases p)
      case Nil
      with pq have "startsWith (d # s) t" using startsWith_iff [of "d # s" t] by auto
      then show ?thesis by simp
    next
      case (Cons c p')
      with pq have "s = p' @ t @ q" by simp
      with IH have "includes_str s t" by blast
      then show ?thesis by simp
    qed
  qed
qed

lemma status_in_detail:
  "mentions (''Airtable API error ('' @ toString code @ ''): '' @ text) (toString code) phrase"
proof -
  have "''Airtable API error ('' @ toString code @ ''): '' @ text
          = ''Airtable API error ('' @ toString code @ (''): '' @ text)" by simp
  then have "includes_str (''Airtable API error ('' @ toString code @ ''): '' @ text) (toString code)"
    unfolding includes_str_iff by (intro exI)
  then show ?thesis by (simp add: mentions_def)
qed

subsection \<open>One iteration of the loop, and a run of pages that carry a token\<close>

lemma loop_error:
  "readResponse v (up (length tr)) = Inl err \<Longrightarrow>
   fetchAllRecords_loop v e up acc off tr = Some (Inl err, tr @ [buildRequest v e off])"
  by (subst fetchAllRecords_loop.simps) (simp add: fetchPage_def)

lemma loop_last:
  "readResponse v (up (length tr)) = Inr p \<Longrightarrow> \<not> truthy (page_offset p) \<Longrightarrow>
   fetchAllRecords_loop v e up acc off tr
     = Some (Inr (acc @ page_records p), tr @ [buildRequest v e off])"
  by (subst fetchAllRecords_loop.simps) (simp add: fetchPage_def)

lemma loop_more:
  "readResponse v (up (length tr)) = Inr p \<Longrightarrow> truthy (page_offset p) \<Longrightarrow>
   fetchAllRecords_loop v e up acc off tr
     = fetchAllRecords_loop v e up (acc @ page_records p) (page_offset p)
         (tr @ [buildRequest v e off])"
  by (subst fetchAllRecords_loop.simps) (simp add: fetchPage_def)

text \<open>
  After pages \<open>ps\<close> that all carry a token the loop stands at the token of the last one,
  with their records appended and one request sent for each.
\<close>

lemma loop_pages:
  "\<forall>i<length ps. readResponse v (up (length tr + i)) = Inr (ps ! i)
                     \<and> truthy (page_offset (ps ! i)) \<Longrightarrow>
   fetchAllRecords_loop v e up acc off tr
     = fetchAllRecords_loop v e up (acc @ concat (map page_records ps))
         (last (off # map page_offset ps))
         (tr @ map (buildRequest v e) (butlast (off # map page_offset ps)))"
proof (induction ps arbitrary: acc off tr)
  case Nil
  then show ?case by simp
next
  case (Cons p ps)
  from Cons.prems have first: "readResponse v (up (length tr)) = Inr p" "truthy (page_offset p)"
    by auto
  have rest: "\<forall>i<length ps. readResponse v (up (length (tr @ [buildRequest v e off]) + i))
                  = Inr (ps ! i) \<and> truthy (page_offset (ps ! i))"
  proof (intro allI impI)
    fix i assume "i < length ps"
    then have "Suc i < length (p # ps)" by simp
    with Cons.prems have "readResponse v (up (length tr + Suc i)) = Inr ((p # ps) ! Suc i)
        \<and> truthy (page_offset ((p # ps) ! Suc i))" by blast
    then show "readResponse v (up (length (tr @ [buildRequest v e off]) + i)) = Inr (ps ! i)
        \<and> truthy (page_offset (ps ! i))" by simp
  qed
  show ?case
    by (simp add: loop_more [where up = up and tr = tr, OF first] Cons.IH [OF rest])
qed

text \<open>What \<^verbatim>\<open>fetchPage\<close> returns has no token or a non-empty one.\<close>

lemma readResponse_offset:
  "readResponse v out = Inr p \<Longrightarrow> truthy (page_offset p) \<longleftrightarrow> page_offset p \<noteq> None"
  by (cases "page_offset p")
     (auto simp: readResponse_def or_else_def
        split: outcome.splits if_splits sum.splits option.splits)

text \<open>A run of \<open>n\<close> pages: the first \<open>n - 1\<close> carry a token, the last one does not.\<close>

lemma length_butlast_Cons: "length (butlast (x # xs)) = length xs"
  by simp

lemma snoc_butlast_last:
  "map f (butlast (x # xs)) @ [f (last (x # xs))] = map f (x # xs)"
proof -
  have "map f (butlast (x # xs) @ [last (x # xs)]) = map f (x # xs)"
    by (simp only: append_butlast_last_id [OF list.distinct(2)])
  then show ?thesis by (simp only: map_append list.map)
qed

lemma run_of_pages:
  assumes "ps \<noteq> []"
    and "\<forall>i<length ps. readResponse v (up i) = Inr (ps ! i)"
    and "\<forall>i<length ps - 1. page_offset (ps ! i) \<noteq> None"
    and "page_offset (last ps) = None"
  shows "fetchAllRecords v e up
           = Some (Inr (concat (map page_records ps)),
                   map (buildRequest v e) (None # map page_offset (butlast ps)))"
proof -
  define qs where "qs = butlast ps"
  define p where "p = last ps"
  define tr where "tr = [] @ map (buildRequest v e) (butlast (None # map page_offset qs))"
  have ps: "ps = qs @ [p]" using assms(1) by (simp add: qs_def p_def)
  have len: "length tr = length qs"
    unfolding tr_def by (simp only: append_Nil length_map length_butlast_Cons)
  have front: "\<forall>i<length qs. readResponse v (up (length ([]::request list) + i)) = Inr (qs ! i)
                  \<and> truthy (page_offset (qs ! i))"
  proof (intro allI impI)
    fix i assume i: "i < length qs"
    then have r: "readResponse v (up i) = Inr (qs ! i)"
      using assms(2) by (simp add: ps nth_append)
    from i have "page_offset (qs ! i) \<noteq> None"
      using assms(3) by (simp add: ps nth_append)
    with r show "readResponse v (up (length ([]::request list) + i)) = Inr (qs ! i)
                  \<and> truthy (page_offset (qs ! i))"
      by (simp add: readResponse_offset)
  qed
  have final: "readResponse v (up (length tr)) = Inr p"
    using assms(2) by (simp add: len ps nth_append)
  have stop: "\<not> truthy (page_offset p)" using assms(4) by (simp add: p_def)
  have "fetchAllRecords v e up
          = fetchAllRecords_loop v e up ([] @ concat (map page_records qs))
              (last (None # map page_offset qs)) tr"
    unfolding fetchAllRecords_def tr_def by (rule loop_pages [OF front])
  also have "\<dots> = Some (Inr (([] @ concat (map page_records qs)) @ page_records p),
                      tr @ [buildRequest v e (last (None # map page_offset qs))])"
    by (rule loop_last [where up = up and tr = tr, OF final stop])
  also have "tr @ [buildRequest v e (last (None # map page_offset qs))]
             = map (buildRequest v e) (None # map page_offset qs)"
    unfolding tr_def append_Nil by (rule snoc_butlast_last)
  finally show ?thesis by (simp add: ps)
qed


lemma run_to_error:
  assumes "\<forall>i<length ps. readResponse v (up i) = Inr (ps ! i) \<and> page_offset (ps ! i) \<noteq> None"
    and "readResponse v (up (length ps)) = Inl err"
  shows "fetchAllRecords v e up
           = Some (Inl err, map (buildRequest v e) (None # map page_offset ps))"
proof -
  define tr where "tr = [] @ map (buildRequest v e) (butlast (None # map page_offset ps))"
  have len: "length tr = length ps"
    unfolding tr_def by (simp only: append_Nil length_map length_butlast_Cons)
  have front: "\<forall>i<length ps. readResponse v (up (length ([]::request list) + i)) = Inr (ps ! i)
                  \<and> truthy (page_offset (ps ! i))"
  proof (intro allI impI)
    fix i assume "i < length ps"
    with assms(1) have "readResponse v (up i) = Inr (ps ! i)" "page_offset (ps ! i) \<noteq> None"
      by auto
    then show "readResponse v (up (length ([]::request list) + i)) = Inr (ps ! i)
                  \<and> truthy (page_offset (ps ! i))"
      by (simp add: readResponse_offset)
  qed
  have final: "readResponse v (up (length tr)) = Inl err"
    using assms(2) by (simp add: len)
  have "fetchAllRecords v e up
          = fetchAllRecords_loop v e up ([] @ concat (map page_records ps))
              (last (None # map page_offset ps)) tr"
    unfolding fetchAllRecords_def tr_def by (rule loop_pages [OF front])
  also have "\<dots> = Some (Inl err, tr @ [buildRequest v e (last (None # map page_offset ps))])"
    by (rule loop_error [where up = up and tr = tr, OF final])
  also have "tr @ [buildRequest v e (last (None # map page_offset ps))]
             = map (buildRequest v e) (None # map page_offset ps)"
    unfolding tr_def append_Nil by (rule snoc_butlast_last)
  finally show ?thesis .
qed

subsection \<open>The scenarios\<close>

lemma readResponse_page_response:
  "readResponse v (page_response (Value rs) token)
     = Inr \<lparr>page_records = rs, page_offset = or_else (nullable token) None,
            page_hasMore = truthy (nullable token)\<rparr>"
  by (simp add: readResponse_def page_response_def ok_def)

lemma two_pages_pages:
  "\<forall>i<length [\<lparr>page_records = [''r1''], page_offset = Some (plain ''tok1''), page_hasMore = True\<rparr>,
                 \<lparr>page_records = [''r2''], page_offset = None, page_hasMore = False\<rparr>].
      readResponse v (two_pages i)
        = Inr ([\<lparr>page_records = [''r1''], page_offset = Some (plain ''tok1''), page_hasMore = True\<rparr>,
                \<lparr>page_records = [''r2''], page_offset = None, page_hasMore = False\<rparr>] ! i)"
  by (simp add: two_pages_def readResponse_page_response or_else_def less_Suc_eq)

subsection \<open>Ordering\<close>

text \<open>
  C1. When the calls of the Page Fetcher return the pages \<open>P1 .. Pn\<close>, the first \<open>n - 1\<close>
  with a token and the last without, \<^verbatim>\<open>fetchAllRecords\<close> returns the records of \<open>P1\<close>, then
  those of \<open>P2\<close>, and so on to \<open>Pn\<close>: the concatenation, in page order and in the order
  within each page, nothing sorted, dropped or changed.
\<close>

theorem fetchAllRecords_concatenates:
  assumes "ps \<noteq> []"
    and "\<forall>i<length ps. readResponse v (up i) = Inr (ps ! i)"
    and "\<forall>i<length ps - 1. page_offset (ps ! i) \<noteq> None"
    and "page_offset (last ps) = None"
  shows "map_option fst (fetchAllRecords v e up) = Some (Inr (concat (map page_records ps)))"
  by (simp add: run_of_pages [OF assms])

theorem fetchAllRecords_concatenates_witness:
  "map_option fst (fetchAllRecords Generic demo_env two_pages) = Some (Inr [''r1'', ''r2''])
   \<and> map_option fst (fetchAllRecords Vercel demo_env two_pages) = Some (Inr [''r1'', ''r2''])"
  using fetchAllRecords_concatenates [where v = Generic and e = demo_env, OF _ two_pages_pages]
        fetchAllRecords_concatenates [where v = Vercel and e = demo_env, OF _ two_pages_pages]
  by simp

subsection \<open>Termination and the number of calls\<close>

lemma readResponse_error_response:
  "\<not> (200 \<le> code \<and> code \<le> 299) \<Longrightarrow>
   readResponse v (error_response code text)
     = Inl (''Airtable API error ('' @ toString code @ ''): '' @ text)"
  by (cases v) (simp_all add: readResponse_def error_response_def ok_def errorDetails_def)

lemma toString_401: "toString 401 = ''401''"
  by (simp add: toString.simps digit_char_def)

lemma toString_429: "toString 429 = ''429''"
  by (simp add: toString.simps digit_char_def)

text \<open>
  C5. For a chain of \<open>n\<close> pages, the first \<open>n - 1\<close> with a token and the last without,
  \<^verbatim>\<open>fetchAllRecords\<close> returns, and it has made exactly \<open>n\<close> calls; \<open>n\<close> is at least 1, so
  one call is made also when the first page has no token.
\<close>

theorem fetchAllRecords_makes_n_calls:
  assumes "ps \<noteq> []"
    and "\<forall>i<length ps. readResponse v (up i) = Inr (ps ! i)"
    and "\<forall>i<length ps - 1. page_offset (ps ! i) \<noteq> None"
    and "page_offset (last ps) = None"
  shows "\<exists>rs tr. fetchAllRecords v e up = Some (Inr rs, tr) \<and> length tr = length ps \<and> tr \<noteq> []"
  using assms(1) by (simp add: run_of_pages [OF assms])

lemma one_page_pages:
  "\<forall>i<length [\<lparr>page_records = [''r1''], page_offset = None, page_hasMore = False\<rparr>].
      readResponse v (one_page i)
        = Inr ([\<lparr>page_records = [''r1''], page_offset = None, page_hasMore = False\<rparr>] ! i)"
  by (simp add: one_page_def readResponse_page_response or_else_def)

theorem fetchAllRecords_makes_n_calls_witness:
  "(\<exists>rs tr. fetchAllRecords Generic demo_env two_pages = Some (Inr rs, tr) \<and> length tr = 2)
   \<and> (\<exists>rs tr. fetchAllRecords Vercel demo_env one_page = Some (Inr rs, tr) \<and> length tr = 1)"
  using fetchAllRecords_makes_n_calls [where v = Generic and e = demo_env, OF _ two_pages_pages]
        fetchAllRecords_makes_n_calls [where v = Vercel and e = demo_env, OF _ one_page_pages]
  by auto

subsection \<open>Error propagation\<close>

text \<open>
  C3 (amended). If the \<open>k\<close>-th call of the Page Fetcher throws an error, after \<open>k - 1\<close>
  calls that returned a page with a token, \<^verbatim>\<open>fetchAllRecords\<close> throws that same error and
  no further call is made: \<open>k\<close> calls in all, the failed one included.
\<close>

theorem fetchAllRecords_stops_at_error:
  assumes "1 \<le> k"
    and "\<forall>i<k - 1. \<exists>p. readResponse v (up i) = Inr p \<and> page_offset p \<noteq> None"
    and "readResponse v (up (k - 1)) = Inl err"
  shows "\<exists>tr. fetchAllRecords v e up = Some (Inl err, tr) \<and> length tr = k"
proof -
  define ps where "ps = map (\<lambda>i. projr (readResponse v (up i))) [0..<k - 1]"
  have len: "length ps = k - 1" by (simp add: ps_def)
  have pages: "\<forall>i<length ps. readResponse v (up i) = Inr (ps ! i) \<and> page_offset (ps ! i) \<noteq> None"
  proof (intro allI impI)
    fix i assume i: "i < length ps"
    with assms(2) len obtain p where p: "readResponse v (up i) = Inr p" "page_offset p \<noteq> None"
      by auto
    from i len have "ps ! i = projr (readResponse v (up i))" by (simp add: ps_def)
    with p show "readResponse v (up i) = Inr (ps ! i) \<and> page_offset (ps ! i) \<noteq> None" by simp
  qed
  have last: "readResponse v (up (length ps)) = Inl err" using assms(3) len by simp
  show ?thesis using assms(1) len by (simp add: run_to_error [OF pages last])
qed

theorem fetchAllRecords_stops_at_error_witness:
  "\<exists>tr. fetchAllRecords Vercel demo_env rate_limited
          = Some (Inl ''Airtable API error (429): Too Many Requests'', tr) \<and> length tr = 2"
proof -
  have a: "(1::nat) \<le> 2" by simp
  have b: "\<forall>i<2 - 1. \<exists>p. readResponse Vercel (rate_limited i) = Inr p \<and> page_offset p \<noteq> None"
    by (simp add: rate_limited_def readResponse_page_response or_else_def)
  have c: "readResponse Vercel (rate_limited (2 - 1))
             = Inl ''Airtable API error (429): Too Many Requests''"
    by (simp add: rate_limited_def readResponse_error_response toString_429)
  show ?thesis using fetchAllRecords_stops_at_error [OF a b c] by simp
qed

theorem fetchAllRecords_error_calls_counterexample:
  "readResponse Generic (unauthorized 0) = Inl ''Airtable API error (401): Unauthorized''
   \<and> fetchAllRecords Generic demo_env unauthorized
       = Some (Inl ''Airtable API error (401): Unauthorized'', [buildRequest Generic demo_env None])
   \<and> length [buildRequest Generic demo_env None] \<noteq> 1 - 1"
proof -
  have r: "readResponse Generic (unauthorized (length ([]::request list)))
             = Inl ''Airtable API error (401): Unauthorized''"
    by (simp add: unauthorized_def readResponse_error_response toString_401)
  show ?thesis
    using r loop_error [where up = unauthorized and tr = "[]", OF r]
    by (simp add: fetchAllRecords_def)
qed

subsection \<open>The query string\<close>

lemma formEncode_append: "formEncode (s @ t) = formEncode s @ formEncode t"
  by (simp add: formEncode_def)











subsection \<open>The request URL\<close>



lemma buildParams_empty_token: "buildParams (Some []) = buildParams None"
  by (simp add: buildParams_def)



lemma buildAirtableURL_empty_token:
  "buildAirtableURL v e (Some []) = buildAirtableURL v e None"
  by (simp add: buildAirtableURL_def buildParams_empty_token)











lemma fetchPage_token_not_empty: "readResponse v out = Inr p \<Longrightarrow> page_offset p \<noteq> Some []"
  using readResponse_offset [of v out p] by auto













subsection \<open>The handler\<close>

lemma AIRTABLE_TABLE_ID_truthy: "truthy (AIRTABLE_TABLE_ID e)"
  by (simp add: AIRTABLE_TABLE_ID_def or_else_def)

lemma handler_OPTIONS:
  "\<exists>res. handler v e up ''OPTIONS'' = Some (res, []) \<and> res_statusCode res = 200
         \<and> res_body res = None"
  by (simp add: handler_def Let_def send_def)

lemma handler_other_method:
  "m \<noteq> ''GET'' \<Longrightarrow> m \<noteq> ''OPTIONS'' \<Longrightarrow>
   \<exists>res. handler v e up m = Some (res, []) \<and> res_statusCode res = 405
         \<and> body_field res ''error'' = Some (JStr ''Method not allowed'')"
  by (cases v) (simp_all add: handler_def Let_def send_def body_field_def rejection_def)

lemma handler_unconfigured:
  "\<not> truthy (env_AIRTABLE_API_KEY e) \<or> \<not> truthy (env_AIRTABLE_BASE_ID e) \<Longrightarrow>
   \<exists>res. handler v e up ''GET'' = Some (res, []) \<and> res_statusCode res = 500
         \<and> body_field res ''error'' = Some (JStr ''Server configuration error'')"
  by (cases v; cases "truthy (env_AIRTABLE_API_KEY e)")
     (simp_all add: handler_def Let_def send_def body_field_def rejection_def)

lemma handler_fetch:
  "truthy (env_AIRTABLE_API_KEY e) \<Longrightarrow> truthy (env_AIRTABLE_BASE_ID e) \<Longrightarrow>
   handler v e up ''GET''
     = (case fetchAllRecords v e up of
          None \<Rightarrow> None
        | Some (Inr allRecords, trace) \<Rightarrow>
            Some (send 200
                    (Some (JObj [(''success'', JBool True),
                                 (''records'', JArr allRecords),
                                 (''totalRecords'', JNum (length allRecords)),
                                 (''table'', JStr (tableLabel v e)),
                                 (''filter'', JStr FILTER_FORMULA),
                                 (''sort'', JObj [(''field'', JStr SORT_FIELD),
                                                  (''direction'', JStr SORT_DIRECTION)])]))
                    (setCORSHeaders \<lparr>res_headers = [], res_statusCode = 200, res_body = None\<rparr>),
                  trace)
        | Some (Inl message, trace) \<Rightarrow>
            Some (send (fst (classifyError v message))
                    (Some (JObj ([(''success'', JBool False),
                                  (''error'', JStr (snd (classifyError v message))),
                                  (''message'', JStr message)]
                                 @ developmentFields v e)))
                    (setCORSHeaders \<lparr>res_headers = [], res_statusCode = 200, res_body = None\<rparr>),
                  trace))"
  by (simp add: handler_def Let_def AIRTABLE_TABLE_ID_truthy)

lemma demo_env_configured:
  "truthy (env_AIRTABLE_API_KEY demo_env)" "truthy (env_AIRTABLE_BASE_ID demo_env)"
  by (simp_all add: demo_env_def)

text \<open>
  C9. A request whose method is neither \<^verbatim>\<open>GET\<close> nor \<^verbatim>\<open>OPTIONS\<close> is answered with status 405
  and no upstream call; an \<^verbatim>\<open>OPTIONS\<close> request is answered with status 200 and no body; a
  \<^verbatim>\<open>GET\<close> request while the API key or the base identifier is absent (or empty) is
  answered with status 500, \<^verbatim>\<open>Server configuration error\<close>, and no upstream call.
\<close>

theorem handler_rejects_early:
  "(m \<noteq> ''GET'' \<and> m \<noteq> ''OPTIONS'' \<longrightarrow>
      (\<exists>res. handler v e up m = Some (res, []) \<and> res_statusCode res = 405
            \<and> body_field res ''error'' = Some (JStr ''Method not allowed'')))
   \<and> (\<exists>res. handler v e up ''OPTIONS'' = Some (res, []) \<and> res_statusCode res = 200
            \<and> res_body res = None)
   \<and> (\<not> truthy (env_AIRTABLE_API_KEY e) \<or> \<not> truthy (env_AIRTABLE_BASE_ID e) \<longrightarrow>
      (\<exists>res. handler v e up ''GET'' = Some (res, []) \<and> res_statusCode res = 500
            \<and> body_field res ''error'' = Some (JStr ''Server configuration error'')))"
proof (intro conjI impI)
  assume "m \<noteq> ''GET'' \<and> m \<noteq> ''OPTIONS''"
  then show "\<exists>res. handler v e up m = Some (res, []) \<and> res_statusCode res = 405
            \<and> body_field res ''error'' = Some (JStr ''Method not allowed'')"
    by (intro handler_other_method) simp_all
next
  show "\<exists>res. handler v e up ''OPTIONS'' = Some (res, []) \<and> res_statusCode res = 200
            \<and> res_body res = None"
    by (rule handler_OPTIONS)
next
  assume "\<not> truthy (env_AIRTABLE_API_KEY e) \<or> \<not> truthy (env_AIRTABLE_BASE_ID e)"
  then show "\<exists>res. handler v e up ''GET'' = Some (res, []) \<and> res_statusCode res = 500
            \<and> body_field res ''error'' = Some (JStr ''Server configuration error'')"
    by (rule handler_unconfigured)
qed

theorem handler_rejects_early_witness:
  "(\<exists>res. handler Generic demo_env two_pages ''POST'' = Some (res, []) \<and> res_statusCode res = 405)
   \<and> (\<exists>res. handler Vercel (demo_env\<lparr>env_AIRTABLE_API_KEY := None\<rparr>) two_pages ''GET''
              = Some (res, []) \<and> res_statusCode res = 500)
   \<and> (\<exists>res. handler Generic (demo_env\<lparr>env_AIRTABLE_BASE_ID := None\<rparr>) two_pages ''GET''
              = Some (res, []) \<and> res_statusCode res = 500)"
proof -
  have post: "''POST'' \<noteq> ''GET'' \<and> ''POST'' \<noteq> ''OPTIONS''" by simp
  have key: "\<not> truthy (env_AIRTABLE_API_KEY (demo_env\<lparr>env_AIRTABLE_API_KEY := None\<rparr>))
             \<or> \<not> truthy (env_AIRTABLE_BASE_ID (demo_env\<lparr>env_AIRTABLE_API_KEY := None\<rparr>))"
    by simp
  have base: "\<not> truthy (env_AIRTABLE_API_KEY (demo_env\<lparr>env_AIRTABLE_BASE_ID := None\<rparr>))
             \<or> \<not> truthy (env_AIRTABLE_BASE_ID (demo_env\<lparr>env_AIRTABLE_BASE_ID := None\<rparr>))"
    by simp
  note a = handler_rejects_early [of "''POST''" Generic demo_env two_pages,
      THEN conjunct1, THEN mp, OF post]
  note b = handler_rejects_early [of "''GET''" Vercel "demo_env\<lparr>env_AIRTABLE_API_KEY := None\<rparr>"
      two_pages, THEN conjunct2, THEN conjunct2, THEN mp, OF key]
  note c = handler_rejects_early [of "''GET''" Generic "demo_env\<lparr>env_AIRTABLE_BASE_ID := None\<rparr>"
      two_pages, THEN conjunct2, THEN conjunct2, THEN mp, OF base]
  from a have a': "\<exists>res. handler Generic demo_env two_pages ''POST'' = Some (res, [])
      \<and> res_statusCode res = 405" by (elim exE conjE) (intro exI conjI)
  from b have b': "\<exists>res. handler Vercel (demo_env\<lparr>env_AIRTABLE_API_KEY := None\<rparr>) two_pages ''GET''
              = Some (res, []) \<and> res_statusCode res = 500" by (elim exE conjE) (intro exI conjI)
  from c have c': "\<exists>res. handler Generic (demo_env\<lparr>env_AIRTABLE_BASE_ID := None\<rparr>) two_pages ''GET''
              = Some (res, []) \<and> res_statusCode res = 500" by (elim exE conjE) (intro exI conjI)
  from a' b' c' show ?thesis by (intro conjI)
qed

lemma handler_success:
  assumes "truthy (env_AIRTABLE_API_KEY e)" and "truthy (env_AIRTABLE_BASE_ID e)"
    and "fetchAllRecords v e up = Some (Inr allRecords, tr)"
  shows "\<exists>res. handler v e up ''GET'' = Some (res, tr) \<and> res_statusCode res = 200
           \<and> res_body res
               = Some (JObj [(''success'', JBool True),
                             (''records'', JArr allRecords),
                             (''totalRecords'', JNum (length allRecords)),
                             (''table'', JStr (tableLabel v e)),
                             (''filter'', JStr FILTER_FORMULA),
                             (''sort'', JObj [(''field'', JStr SORT_FIELD),
                                              (''direction'', JStr SORT_DIRECTION)])])"
  by (simp add: handler_fetch [OF assms(1) assms(2)] assms(3) send_def)

lemma handler_failure:
  assumes "truthy (env_AIRTABLE_API_KEY e)" and "truthy (env_AIRTABLE_BASE_ID e)"
    and "fetchAllRecords v e up = Some (Inl message, tr)"
  shows "\<exists>res. handler v e up ''GET'' = Some (res, tr)
           \<and> res_statusCode res = fst (classifyError v message)
           \<and> res_body res
               = Some (JObj ([(''success'', JBool False),
                              (''error'', JStr (snd (classifyError v message))),
                              (''message'', JStr message)]
                             @ developmentFields v e))"
  by (simp add: handler_fetch [OF assms(1) assms(2)] assms(3) send_def)

lemma readResponse_ok:
  assumes "ok response" and "body_json response = Inr (Some data)"
  shows "readResponse v (Resolved response)
           = Inr \<lparr>page_records = (case data_records data of Value rs \<Rightarrow> rs | _ \<Rightarrow> []),
                  page_offset = or_else (nullable (data_offset data)) None,
                  page_hasMore = truthy (nullable (data_offset data))\<rparr>"
  using assms by (simp add: readResponse_def)

lemma single_page_run:
  assumes "readResponse v (up 0) = Inr p" and "page_offset p = None"
  shows "fetchAllRecords v e up = Some (Inr (page_records p), [buildRequest v e None])"
proof -
  have r: "readResponse v (up (length ([]::request list))) = Inr p" using assms(1) by simp
  have s: "\<not> truthy (page_offset p)" using assms(2) by simp
  show ?thesis
    unfolding fetchAllRecords_def
    using loop_last [where up = up and tr = "[]", OF r s] by simp
qed

subsection \<open>An empty token\<close>

lemma empty_token_first:
  "\<forall>i<length [\<lparr>page_records = [''r1''], page_offset = Some (plain ''tok1''), page_hasMore = True\<rparr>].
      readResponse v (empty_token i)
        = Inr ([\<lparr>page_records = [''r1''], page_offset = Some (plain ''tok1''), page_hasMore = True\<rparr>] ! i)
      \<and> page_offset ([\<lparr>page_records = [''r1''], page_offset = Some (plain ''tok1''),
            page_hasMore = True\<rparr>] ! i) \<noteq> None"
  by (simp add: empty_token_def readResponse_page_response or_else_def)

text \<open>
  C10. When a response with an ok status carries an \<^verbatim>\<open>offset\<close> that is the empty string,
  the Page Fetcher returns a page without token (and \<^verbatim>\<open>hasMore\<close> false); the loop of
  \<^verbatim>\<open>fetchAllRecords\<close> ends with that call, whatever the upstream would answer to a
  further one; and no request carries an \<^verbatim>\<open>offset\<close> parameter with the empty value: for
  the empty token the URL is the one built for no token.
\<close>

theorem empty_offset_ends_the_loop:
  assumes "ok response" and "body_json response = Inr (Some data)"
    and "data_offset data = Value []"
  shows "(\<exists>p. readResponse v (Resolved response) = Inr p \<and> page_offset p = None
              \<and> \<not> page_hasMore p)
     \<and> ((\<forall>i<length ps. readResponse v (up i) = Inr (ps ! i) \<and> page_offset (ps ! i) \<noteq> None)
          \<and> up (length ps) = Resolved response \<longrightarrow>
         (\<exists>rs tr. fetchAllRecords v e up = Some (Inr rs, tr) \<and> length tr = Suc (length ps)))
     \<and> (''offset'', []) \<notin> set (buildParams token)
     \<and> buildAirtableURL v e (Some []) = buildAirtableURL v e None"
proof (intro conjI impI)
  define p where "p = \<lparr>page_records = (case data_records data of Value rs \<Rightarrow> rs | _ \<Rightarrow> []),
                       page_offset = or_else (nullable (data_offset data)) None,
                       page_hasMore = truthy (nullable (data_offset data))\<rparr>"
  have read: "readResponse v (Resolved response) = Inr p"
    unfolding p_def by (rule readResponse_ok [OF assms(1) assms(2)])
  have none: "page_offset p = None" "\<not> page_hasMore p"
    by (simp_all add: p_def assms(3) or_else_def)
  from read none
  show "\<exists>p. readResponse v (Resolved response) = Inr p \<and> page_offset p = None \<and> \<not> page_hasMore p"
    by (intro exI [of _ p] conjI)
  show "(''offset'', []) \<notin> set (buildParams token)"
    by (cases token) (simp_all add: buildParams_def)
  show "buildAirtableURL v e (Some []) = buildAirtableURL v e None"
    by (rule buildAirtableURL_empty_token)
  assume run: "(\<forall>i<length ps. readResponse v (up i) = Inr (ps ! i) \<and> page_offset (ps ! i) \<noteq> None)
          \<and> up (length ps) = Resolved response"
  have a: "ps @ [p] \<noteq> []" by simp
  have b: "\<forall>i<length (ps @ [p]). readResponse v (up i) = Inr ((ps @ [p]) ! i)"
  proof (intro allI impI)
    fix i assume "i < length (ps @ [p])"
    then consider "i < length ps" | "i = length ps" by fastforce
    then show "readResponse v (up i) = Inr ((ps @ [p]) ! i)"
    proof cases
      case 1
      with run show ?thesis by (simp add: nth_append)
    next
      case 2
      with run read show ?thesis by simp
    qed
  qed
  have c: "\<forall>i<length (ps @ [p]) - 1. page_offset ((ps @ [p]) ! i) \<noteq> None"
    using run by (simp add: nth_append)
  have d: "page_offset (last (ps @ [p])) = None" using none by simp
  show "\<exists>rs tr. fetchAllRecords v e up = Some (Inr rs, tr) \<and> length tr = Suc (length ps)"
    by (simp add: run_of_pages [OF a b c d])
qed

theorem empty_offset_ends_the_loop_witness:
  "(\<exists>p. readResponse Generic (empty_token 1) = Inr p \<and> page_offset p = None \<and> \<not> page_hasMore p)
   \<and> (\<exists>rs tr. fetchAllRecords Generic demo_env empty_token = Some (Inr rs, tr) \<and> length tr = 2)"
proof -
  define response :: "string response" where
    "response = \<lparr>status = 200, body_text = [], body_reformatted = None,
                 body_json = Inr (Some \<lparr>data_records = Value [''r2''], data_offset = Value []\<rparr>)\<rparr>"
  define data :: "string data" where
    "data = \<lparr>data_records = Value [''r2''], data_offset = Value []\<rparr>"
  have second: "empty_token 1 = Resolved response"
    by (simp add: empty_token_def page_response_def response_def)
  have a: "ok response" by (simp add: response_def ok_def)
  have b: "body_json response = Inr (Some data)" by (simp add: response_def data_def)
  have c: "data_offset data = Value []" by (simp add: data_def)
  have run: "(\<forall>i<length [\<lparr>page_records = [''r1''], page_offset = Some (plain ''tok1''), page_hasMore = True\<rparr>].
      readResponse Generic (empty_token i)
        = Inr ([\<lparr>page_records = [''r1''], page_offset = Some (plain ''tok1''), page_hasMore = True\<rparr>] ! i)
      \<and> page_offset ([\<lparr>page_records = [''r1''], page_offset = Some (plain ''tok1''),
            page_hasMore = True\<rparr>] ! i) \<noteq> None)
      \<and> empty_token (length [\<lparr>page_records = [''r1''], page_offset = Some (plain ''tok1''),
            page_hasMore = True\<rparr>]) = Resolved response"
    using empty_token_first [of Generic] second by simp
  note inst = empty_offset_ends_the_loop [OF a b c, where v = Generic and up = empty_token
      and e = demo_env
      and ps = "[\<lparr>page_records = [''r1''], page_offset = Some (plain ''tok1''), page_hasMore = True\<rparr>]"]
  note a1 = inst [THEN conjunct1]
  note a2 = inst [THEN conjunct2, THEN conjunct1, THEN mp, OF run]
  from a1 a2 show ?thesis unfolding second by (simp add: numeral_2_eq_2)
qed

subsection \<open>A failed fetch\<close>

lemma classifyError_status: "fst (classifyError v message) \<in> {401, 403, 404, 422, 429, 500}"
  by (simp add: classifyError_def)

lemma developmentFields_records: "map_of (developmentFields v e) ''records'' = None"
  by (cases v) (simp_all add: developmentFields_def)

lemma rate_limited_first:
  "\<forall>i<length [\<lparr>page_records = [''r1''], page_offset = Some (plain ''tokA''), page_hasMore = True\<rparr>].
      readResponse v (rate_limited i)
        = Inr ([\<lparr>page_records = [''r1''], page_offset = Some (plain ''tokA''), page_hasMore = True\<rparr>] ! i)
      \<and> page_offset ([\<lparr>page_records = [''r1''], page_offset = Some (plain ''tokA''),
            page_hasMore = True\<rparr>] ! i) \<noteq> None"
  by (simp add: rate_limited_def readResponse_page_response or_else_def)

lemma rate_limited_second:
  "readResponse v (rate_limited (length [\<lparr>page_records = [''r1''],
      page_offset = Some (plain ''tokA''), page_hasMore = True\<rparr>]))
     = Inl ''Airtable API error (429): Too Many Requests''"
  by (simp add: rate_limited_def readResponse_error_response toString_429)

text \<open>
  C6. If a call of the Page Fetcher fails, after any number of pages that were fetched,
  the handler answers with the error response alone: a status other than 200 and the body
  \<^verbatim>\<open>success: false\<close>, \<^verbatim>\<open>error\<close>, \<^verbatim>\<open>message\<close> (and the development fields), with no
  \<^verbatim>\<open>records\<close> field. The records of the pages fetched before are not returned.
\<close>

theorem failed_fetch_returns_no_records:
  assumes "truthy (env_AIRTABLE_API_KEY e)" and "truthy (env_AIRTABLE_BASE_ID e)"
    and "\<forall>i<length ps. readResponse v (up i) = Inr (ps ! i) \<and> page_offset (ps ! i) \<noteq> None"
    and "readResponse v (up (length ps)) = Inl err"
  shows "\<exists>res tr. fetchAllRecords v e up = Some (Inl err, tr)
           \<and> handler v e up ''GET'' = Some (res, tr)
           \<and> length tr = Suc (length ps)
           \<and> res_statusCode res \<in> {401, 403, 404, 422, 429, 500}
           \<and> res_body res
               = Some (JObj ([(''success'', JBool False),
                              (''error'', JStr (snd (classifyError v err))),
                              (''message'', JStr err)]
                             @ developmentFields v e))
           \<and> body_field res ''success'' = Some (JBool False)
           \<and> body_field res ''records'' = None"
proof -
  define tr where "tr = map (buildRequest v e) (None # map page_offset ps)"
  have run: "fetchAllRecords v e up = Some (Inl err, tr)"
    unfolding tr_def by (rule run_to_error [OF assms(3) assms(4)])
  have len: "length tr = Suc (length ps)" by (simp add: tr_def)
  from handler_failure [OF assms(1) assms(2) run] run len show ?thesis
    apply (elim exE conjE)
    subgoal for res
      apply (rule exI [of _ res])
      apply (rule exI [of _ tr])
      apply (insert classifyError_status [of v err])
      apply (simp add: body_field_def developmentFields_records map_add_def)
      done
    done
qed

theorem failed_fetch_returns_no_records_witness:
  "\<exists>res tr. fetchAllRecords Vercel demo_env rate_limited
               = Some (Inl ''Airtable API error (429): Too Many Requests'', tr)
      \<and> handler Vercel demo_env rate_limited ''GET'' = Some (res, tr)
      \<and> length tr = 2
      \<and> body_field res ''success'' = Some (JBool False)
      \<and> body_field res ''records'' = None"
  using failed_fetch_returns_no_records [OF demo_env_configured rate_limited_first
      rate_limited_second, of Vercel]
  apply (elim exE conjE)
  subgoal for res tr
    apply (rule exI [of _ res])
    apply (rule exI [of _ tr])
    apply simp
    done
  done

subsection \<open>The status of an error response\<close>

lemma classify_401:
  "mentions d ''401'' ''Unauthorized'' \<Longrightarrow>
   classifyError v d = (401, errorType v ''Authentication error'')"
  by (simp add: classifyError_def)

lemma classify_403:
  "\<not> mentions d ''401'' ''Unauthorized'' \<Longrightarrow> mentions d ''403'' ''Forbidden'' \<Longrightarrow>
   classifyError v d = (403, errorType v ''Permission denied'')"
  by (simp add: classifyError_def)

lemma classify_404:
  "\<not> mentions d ''401'' ''Unauthorized'' \<Longrightarrow> \<not> mentions d ''403'' ''Forbidden'' \<Longrightarrow>
   mentions d ''404'' ''Not Found'' \<Longrightarrow>
   classifyError v d = (404, errorType v ''Resource not found'')"
  by (simp add: classifyError_def)

lemma classify_422:
  "\<not> mentions d ''401'' ''Unauthorized'' \<Longrightarrow> \<not> mentions d ''403'' ''Forbidden'' \<Longrightarrow>
   \<not> mentions d ''404'' ''Not Found'' \<Longrightarrow> mentions d ''422'' ''Unprocessable'' \<Longrightarrow>
   classifyError v d = (422, errorType v ''Invalid request'')"
  by (simp add: classifyError_def)

lemma classify_429:
  "\<not> mentions d ''401'' ''Unauthorized'' \<Longrightarrow> \<not> mentions d ''403'' ''Forbidden'' \<Longrightarrow>
   \<not> mentions d ''404'' ''Not Found'' \<Longrightarrow> \<not> mentions d ''422'' ''Unprocessable'' \<Longrightarrow>
   mentions d ''429'' ''Too Many Requests'' \<Longrightarrow>
   classifyError Vercel d = (429, ''Rate limit exceeded'')"
  by (simp add: classifyError_def errorType_def)

lemma classify_500:
  "\<not> mentions d ''401'' ''Unauthorized'' \<Longrightarrow> \<not> mentions d ''403'' ''Forbidden'' \<Longrightarrow>
   \<not> mentions d ''404'' ''Not Found'' \<Longrightarrow> \<not> mentions d ''422'' ''Unprocessable'' \<Longrightarrow>
   v = Generic \<or> \<not> mentions d ''429'' ''Too Many Requests'' \<Longrightarrow>
   classifyError v d = (500, errorType v ''Internal server error'')"
  by (auto simp: classifyError_def)

lemma errorType_Vercel: "errorType Vercel t = t"
  by (simp add: errorType_def)

lemma classifyError_Generic: "snd (classifyError Generic d) = ''Failed to fetch Airtable records''"
  by (simp add: classifyError_def errorType_def)

text \<open>
  C2 (amended). When the fetch fails with the detail \<open>d\<close>, the handler's body has
  \<^verbatim>\<open>success: false\<close>, \<^verbatim>\<open>error\<close> and \<^verbatim>\<open>message: d\<close>, and nothing else unless \<^verbatim>\<open>NODE_ENV\<close> is
  \<^verbatim>\<open>development\<close>. The status is given by the first rule that applies, in this order:
  \<open>d\<close> contains \<^verbatim>\<open>401\<close> or \<^verbatim>\<open>Unauthorized\<close>: 401; \<^verbatim>\<open>403\<close> or \<^verbatim>\<open>Forbidden\<close>: 403; \<^verbatim>\<open>404\<close> or
  \<^verbatim>\<open>Not Found\<close>: 404; \<^verbatim>\<open>422\<close> or \<^verbatim>\<open>Unprocessable\<close>: 422; in the Vercel version only,
  \<^verbatim>\<open>429\<close> or \<^verbatim>\<open>Too Many Requests\<close>: 429; otherwise 500. In the Vercel version the
  \<^verbatim>\<open>error\<close> field is, in the same order, \<^verbatim>\<open>Authentication error\<close>, \<^verbatim>\<open>Permission denied\<close>,
  \<^verbatim>\<open>Resource not found\<close>, \<^verbatim>\<open>Invalid request\<close>, \<^verbatim>\<open>Rate limit exceeded\<close>,
  \<^verbatim>\<open>Internal server error\<close>; in the generic version it is always
  \<^verbatim>\<open>Failed to fetch Airtable records\<close>.
\<close>

theorem handler_error_response:
  assumes "truthy (env_AIRTABLE_API_KEY e)" and "truthy (env_AIRTABLE_BASE_ID e)"
    and "fetchAllRecords v e up = Some (Inl d, tr)"
  shows "\<exists>res. handler v e up ''GET'' = Some (res, tr)
     \<and> body_field res ''success'' = Some (JBool False)
     \<and> body_field res ''message'' = Some (JStr d)
     \<and> (env_NODE_ENV e \<noteq> Some ''development'' \<longrightarrow>
          (\<exists>category. res_body res = Some (JObj [(''success'', JBool False),
                                                  (''error'', JStr category),
                                                  (''message'', JStr d)])))
     \<and> (v = Generic \<longrightarrow>
          body_field res ''error'' = Some (JStr ''Failed to fetch Airtable records''))
     \<and> (mentions d ''401'' ''Unauthorized'' \<longrightarrow>
          res_statusCode res = 401
          \<and> (v = Vercel \<longrightarrow> body_field res ''error'' = Some (JStr ''Authentication error'')))
     \<and> (\<not> mentions d ''401'' ''Unauthorized'' \<and> mentions d ''403'' ''Forbidden'' \<longrightarrow>
          res_statusCode res = 403
          \<and> (v = Vercel \<longrightarrow> body_field res ''error'' = Some (JStr ''Permission denied'')))
     \<and> (\<not> mentions d ''401'' ''Unauthorized'' \<and> \<not> mentions d ''403'' ''Forbidden''
          \<and> mentions d ''404'' ''Not Found'' \<longrightarrow>
          res_statusCode res = 404
          \<and> (v = Vercel \<longrightarrow> body_field res ''error'' = Some (JStr ''Resource not found'')))
     \<and> (\<not> mentions d ''401'' ''Unauthorized'' \<and> \<not> mentions d ''403'' ''Forbidden''
          \<and> \<not> mentions d ''404'' ''Not Found'' \<and> mentions d ''422'' ''Unprocessable'' \<longrightarrow>
          res_statusCode res = 422
          \<and> (v = Vercel \<longrightarrow> body_field res ''error'' = Some (JStr ''Invalid request'')))
     \<and> (\<not> mentions d ''401'' ''Unauthorized'' \<and> \<not> mentions d ''403'' ''Forbidden''
          \<and> \<not> mentions d ''404'' ''Not Found'' \<and> \<not> mentions d ''422'' ''Unprocessable''
          \<and> v = Vercel \<and> mentions d ''429'' ''Too Many Requests'' \<longrightarrow>
          res_statusCode res = 429
          \<and> body_field res ''error'' = Some (JStr ''Rate limit exceeded''))
     \<and> (\<not> mentions d ''401'' ''Unauthorized'' \<and> \<not> mentions d ''403'' ''Forbidden''
          \<and> \<not> mentions d ''404'' ''Not Found'' \<and> \<not> mentions d ''422'' ''Unprocessable''
          \<and> (v = Generic \<or> \<not> mentions d ''429'' ''Too Many Requests'') \<longrightarrow>
          res_statusCode res = 500
          \<and> (v = Vercel \<longrightarrow> body_field res ''error'' = Some (JStr ''Internal server error'')))"
proof -
  from handler_failure [OF assms] obtain res where
    res: "handler v e up ''GET'' = Some (res, tr)"
    and code: "res_statusCode res = fst (classifyError v d)"
    and body: "res_body res
               = Some (JObj ([(''success'', JBool False),
                              (''error'', JStr (snd (classifyError v d))),
                              (''message'', JStr d)]
                             @ developmentFields v e))"
    by (elim exE conjE)
  have success: "body_field res ''success'' = Some (JBool False)"
    by (simp add: body_field_def body)
  have message: "body_field res ''message'' = Some (JStr d)"
    by (simp add: body_field_def body)
  have category: "body_field res ''error'' = Some (JStr (snd (classifyError v d)))"
    by (simp add: body_field_def body)
  have plain: "env_NODE_ENV e \<noteq> Some ''development'' \<longrightarrow>
          (\<exists>category. res_body res = Some (JObj [(''success'', JBool False),
                                                  (''error'', JStr category),
                                                  (''message'', JStr d)]))"
    by (simp add: body developmentFields_def)
  have generic: "v = Generic \<longrightarrow>
          body_field res ''error'' = Some (JStr ''Failed to fetch Airtable records'')"
    by (simp add: category classifyError_Generic)
  have r401: "mentions d ''401'' ''Unauthorized'' \<longrightarrow>
          res_statusCode res = 401
          \<and> (v = Vercel \<longrightarrow> body_field res ''error'' = Some (JStr ''Authentication error''))"
    by (simp add: code category classify_401 errorType_Vercel)
  have r403: "\<not> mentions d ''401'' ''Unauthorized'' \<and> mentions d ''403'' ''Forbidden'' \<longrightarrow>
          res_statusCode res = 403
          \<and> (v = Vercel \<longrightarrow> body_field res ''error'' = Some (JStr ''Permission denied''))"
    by (simp add: code category classify_403 errorType_Vercel)
  have r404: "\<not> mentions d ''401'' ''Unauthorized'' \<and> \<not> mentions d ''403'' ''Forbidden''
          \<and> mentions d ''404'' ''Not Found'' \<longrightarrow>
          res_statusCode res = 404
          \<and> (v = Vercel \<longrightarrow> body_field res ''error'' = Some (JStr ''Resource not found''))"
    by (simp add: code category classify_404 errorType_Vercel)
  have r422: "\<not> mentions d ''401'' ''Unauthorized'' \<and> \<not> mentions d ''403'' ''Forbidden''
          \<and> \<not> mentions d ''404'' ''Not Found'' \<and> mentions d ''422'' ''Unprocessable'' \<longrightarrow>
          res_statusCode res = 422
          \<and> (v = Vercel \<longrightarrow> body_field res ''error'' = Some (JStr ''Invalid request''))"
    by (simp add: code category classify_422 errorType_Vercel)
  have r429: "\<not> mentions d ''401'' ''Unauthorized'' \<and> \<not> mentions d ''403'' ''Forbidden''
          \<and> \<not> mentions d ''404'' ''Not Found'' \<and> \<not> mentions d ''422'' ''Unprocessable''
          \<and> v = Vercel \<and> mentions d ''429'' ''Too Many Requests'' \<longrightarrow>
          res_statusCode res = 429
          \<and> body_field res ''error'' = Some (JStr ''Rate limit exceeded'')"
    by (simp add: code category classify_429)
  have r500: "\<not> mentions d ''401'' ''Unauthorized'' \<and> \<not> mentions d ''403'' ''Forbidden''
          \<and> \<not> mentions d ''404'' ''Not Found'' \<and> \<not> mentions d ''422'' ''Unprocessable''
          \<and> (v = Generic \<or> \<not> mentions d ''429'' ''Too Many Requests'') \<longrightarrow>
          res_statusCode res = 500
          \<and> (v = Vercel \<longrightarrow> body_field res ''error'' = Some (JStr ''Internal server error''))"
  proof (intro impI)
    assume "\<not> mentions d ''401'' ''Unauthorized'' \<and> \<not> mentions d ''403'' ''Forbidden''
          \<and> \<not> mentions d ''404'' ''Not Found'' \<and> \<not> mentions d ''422'' ''Unprocessable''
          \<and> (v = Generic \<or> \<not> mentions d ''429'' ''Too Many Requests'')"
    then have "classifyError v d = (500, errorType v ''Internal server error'')"
      by (intro classify_500) simp_all
    then show "res_statusCode res = 500
          \<and> (v = Vercel \<longrightarrow> body_field res ''error'' = Some (JStr ''Internal server error''))"
      by (cases v) (simp_all add: code category errorType_def)
  qed
  from res success message plain generic r401 r403 r404 r422 r429 r500 show ?thesis
    by (intro exI [of _ res] conjI)
qed


lemma unauthorized_run:
  "fetchAllRecords v demo_env unauthorized
     = Some (Inl ''Airtable API error (401): Unauthorized'', [buildRequest v demo_env None])"
proof -
  have none: "\<forall>i<length ([]::string page list).
      readResponse v (unauthorized i) = Inr ([] ! i) \<and> page_offset (([]::string page list) ! i) \<noteq> None"
    by simp
  have err: "readResponse v (unauthorized (length ([]::string page list)))
      = Inl ''Airtable API error (401): Unauthorized''"
    by (simp add: unauthorized_def readResponse_error_response toString_401)
  show ?thesis using run_to_error [OF none err, of demo_env] by simp
qed

lemma rate_limited_run:
  "fetchAllRecords v demo_env rate_limited
     = Some (Inl ''Airtable API error (429): Too Many Requests'',
             [buildRequest v demo_env None, buildRequest v demo_env (Some (plain ''tokA''))])"
  using run_to_error [OF rate_limited_first rate_limited_second, of v demo_env] by simp

lemma toString_500: "toString 500 = ''500''"
  by (simp add: toString.simps digit_char_def)

lemma gateway_error_run:
  "fetchAllRecords v demo_env gateway_error
     = Some (Inl ''Airtable API error (500): Unauthorized'', [buildRequest v demo_env None])"
proof -
  have none: "\<forall>i<length ([]::string page list).
      readResponse v (gateway_error i) = Inr ([] ! i) \<and> page_offset (([]::string page list) ! i) \<noteq> None"
    by simp
  have err: "readResponse v (gateway_error (length ([]::string page list)))
      = Inl ''Airtable API error (500): Unauthorized''"
    by (simp add: gateway_error_def readResponse_error_response toString_500)
  show ?thesis using run_to_error [OF none err, of demo_env] by simp
qed

lemma unauthorized_detail:
  "mentions ''Airtable API error (401): Unauthorized'' ''401'' ''Unauthorized''"
  by (simp add: mentions_def)

lemma rate_limited_detail:
  "\<not> mentions ''Airtable API error (429): Too Many Requests'' ''401'' ''Unauthorized''"
  "\<not> mentions ''Airtable API error (429): Too Many Requests'' ''403'' ''Forbidden''"
  "\<not> mentions ''Airtable API error (429): Too Many Requests'' ''404'' ''Not Found''"
  "\<not> mentions ''Airtable API error (429): Too Many Requests'' ''422'' ''Unprocessable''"
  "mentions ''Airtable API error (429): Too Many Requests'' ''429'' ''Too Many Requests''"
  by (simp_all add: mentions_def)

theorem handler_error_response_witness:
  "(\<exists>res tr. handler Vercel demo_env unauthorized ''GET'' = Some (res, tr)
      \<and> res_statusCode res = 401
      \<and> body_field res ''error'' = Some (JStr ''Authentication error''))
   \<and> (\<exists>res tr. handler Vercel demo_env rate_limited ''GET'' = Some (res, tr)
      \<and> res_statusCode res = 429
      \<and> body_field res ''error'' = Some (JStr ''Rate limit exceeded''))
   \<and> (\<exists>res tr. handler Generic demo_env rate_limited ''GET'' = Some (res, tr)
      \<and> res_statusCode res = 500
      \<and> body_field res ''error'' = Some (JStr ''Failed to fetch Airtable records''))"
proof (intro conjI)
  show "\<exists>res tr. handler Vercel demo_env unauthorized ''GET'' = Some (res, tr)
      \<and> res_statusCode res = 401
      \<and> body_field res ''error'' = Some (JStr ''Authentication error'')"
    using handler_error_response [OF demo_env_configured unauthorized_run, of Vercel]
      unauthorized_detail
    apply (elim exE conjE)
    subgoal for res
      apply (rule exI [of _ res])
      apply (rule exI [of _ "[buildRequest Vercel demo_env None]"])
      apply simp
      done
    done
  show "\<exists>res tr. handler Vercel demo_env rate_limited ''GET'' = Some (res, tr)
      \<and> res_statusCode res = 429
      \<and> body_field res ''error'' = Some (JStr ''Rate limit exceeded'')"
    using handler_error_response [OF demo_env_configured rate_limited_run, of Vercel]
      rate_limited_detail
    apply (elim exE conjE)
    subgoal for res
      apply (rule exI [of _ res])
      apply (rule exI [of _ "[buildRequest Vercel demo_env None,
                               buildRequest Vercel demo_env (Some (plain ''tokA''))]"])
      apply simp
      done
    done
  show "\<exists>res tr. handler Generic demo_env rate_limited ''GET'' = Some (res, tr)
      \<and> res_statusCode res = 500
      \<and> body_field res ''error'' = Some (JStr ''Failed to fetch Airtable records'')"
    using handler_error_response [OF demo_env_configured rate_limited_run, of Generic]
      rate_limited_detail
    apply (elim exE conjE)
    subgoal for res
      apply (rule exI [of _ res])
      apply (rule exI [of _ "[buildRequest Generic demo_env None,
                               buildRequest Generic demo_env (Some (plain ''tokA''))]"])
      apply simp
      done
    done
qed

lemma demo_env_plain: "developmentFields v demo_env = []"
  by (simp add: developmentFields_def demo_env_def)

lemma cors_headers:
  "setCORSHeaders \<lparr>res_headers = [], res_statusCode = 200, res_body = None\<rparr>
     = \<lparr>res_headers = [(''Access-Control-Allow-Origin'', ''*''),
                       (''Access-Control-Allow-Methods'', ''GET, OPTIONS''),
                       (''Access-Control-Allow-Headers'', ''Content-Type, Authorization''),
                       (''Access-Control-Max-Age'', ''86400''),
                       (''Content-Type'', ''application/json'')],
        res_statusCode = 200, res_body = None\<rparr>"
  by (simp add: setCORSHeaders_def setHeader_def)

theorem handler_error_status_counterexample:
  "includes_str ''Airtable API error (429): Too Many Requests'' ''429''
   \<and> handler Generic demo_env rate_limited ''GET''
       = Some (\<lparr>res_headers = [(''Access-Control-Allow-Origin'', ''*''),
                               (''Access-Control-Allow-Methods'', ''GET, OPTIONS''),
                               (''Access-Control-Allow-Headers'', ''Content-Type, Authorization''),
                               (''Access-Control-Max-Age'', ''86400''),
                               (''Content-Type'', ''application/json'')],
                res_statusCode = 500,
                res_body = Some (JObj [(''success'', JBool False),
                                       (''error'', JStr ''Failed to fetch Airtable records''),
                                       (''message'',
                                        JStr ''Airtable API error (429): Too Many Requests'')])\<rparr>,
               [buildRequest Generic demo_env None, buildRequest Generic demo_env (Some (plain ''tokA''))])
   \<and> \<not> includes_str ''Airtable API error (500): Unauthorized'' ''401''
   \<and> \<not> includes_str ''Airtable API error (500): Unauthorized'' ''403''
   \<and> \<not> includes_str ''Airtable API error (500): Unauthorized'' ''404''
   \<and> \<not> includes_str ''Airtable API error (500): Unauthorized'' ''422''
   \<and> \<not> includes_str ''Airtable API error (500): Unauthorized'' ''429''
   \<and> handler Vercel demo_env gateway_error ''GET''
       = Some (\<lparr>res_headers = [(''Access-Control-Allow-Origin'', ''*''),
                               (''Access-Control-Allow-Methods'', ''GET, OPTIONS''),
                               (''Access-Control-Allow-Headers'', ''Content-Type, Authorization''),
                               (''Access-Control-Max-Age'', ''86400''),
                               (''Content-Type'', ''application/json'')],
                res_statusCode = 401,
                res_body = Some (JObj [(''success'', JBool False),
                                       (''error'', JStr ''Authentication error''),
                                       (''message'',
                                        JStr ''Airtable API error (500): Unauthorized'')])\<rparr>,
               [buildRequest Vercel demo_env None])"
proof (intro conjI)
  have generic: "classifyError Generic ''Airtable API error (429): Too Many Requests''
      = (500, ''Failed to fetch Airtable records'')"
    using rate_limited_detail by (simp add: classifyError_def errorType_def)
  have vercel: "classifyError Vercel ''Airtable API error (500): Unauthorized''
      = (401, ''Authentication error'')"
    by (simp add: classifyError_def errorType_def mentions_def)
  show "handler Generic demo_env rate_limited ''GET''
       = Some (\<lparr>res_headers = [(''Access-Control-Allow-Origin'', ''*''),
                               (''Access-Control-Allow-Methods'', ''GET, OPTIONS''),
                               (''Access-Control-Allow-Headers'', ''Content-Type, Authorization''),
                               (''Access-Control-Max-Age'', ''86400''),
                               (''Content-Type'', ''application/json'')],
                res_statusCode = 500,
                res_body = Some (JObj [(''success'', JBool False),
                                       (''error'', JStr ''Failed to fetch Airtable records''),
                                       (''message'',
                                        JStr ''Airtable API error (429): Too Many Requests'')])\<rparr>,
               [buildRequest Generic demo_env None, buildRequest Generic demo_env (Some (plain ''tokA''))])"
    by (simp add: handler_fetch [OF demo_env_configured] rate_limited_run generic
          cors_headers send_def demo_env_plain)
  show "handler Vercel demo_env gateway_error ''GET''
       = Some (\<lparr>res_headers = [(''Access-Control-Allow-Origin'', ''*''),
                               (''Access-Control-Allow-Methods'', ''GET, OPTIONS''),
                               (''Access-Control-Allow-Headers'', ''Content-Type, Authorization''),
                               (''Access-Control-Max-Age'', ''86400''),
                               (''Content-Type'', ''application/json'')],
                res_statusCode = 401,
                res_body = Some (JObj [(''success'', JBool False),
                                       (''error'', JStr ''Authentication error''),
                                       (''message'',
                                        JStr ''Airtable API error (500): Unauthorized'')])\<rparr>,
               [buildRequest Vercel demo_env None])"
    by (simp add: handler_fetch [OF demo_env_configured] gateway_error_run vercel
          cors_headers send_def demo_env_plain)
qed simp_all

subsection \<open>The token between two calls\<close>











subsection \<open>The empty collection\<close>

text \<open>
  C7 (amended). A response with an ok status whose body is not the JSON value \<^verbatim>\<open>null\<close> and
  has no \<^verbatim>\<open>records\<close> field gives a page with no records, and one whose body is not \<^verbatim>\<open>null\<close>
  and has no \<^verbatim>\<open>offset\<close> field a page with no token, in both cases without error. So when the first call returns a page with no record and no token,
  \<^verbatim>\<open>fetchAllRecords\<close> returns the empty collection, and the handler answers with status 200,
  \<^verbatim>\<open>success: true\<close>, \<^verbatim>\<open>records: []\<close> and \<^verbatim>\<open>totalRecords: 0\<close>.
\<close>

theorem empty_collection_succeeds:
  "(ok response \<and> body_json response = Inr (Some data) \<and> data_records data = Missing \<longrightarrow>
      (\<exists>p. readResponse v (Resolved response) = Inr p \<and> page_records p = []))
   \<and> (ok response \<and> body_json response = Inr (Some data) \<and> data_offset data = Missing \<longrightarrow>
      (\<exists>p. readResponse v (Resolved response) = Inr p \<and> page_offset p = None
           \<and> \<not> page_hasMore p))
   \<and> (readResponse v (up 0) = Inr p \<and> page_records p = [] \<and> page_offset p = None \<longrightarrow>
        map_option fst (fetchAllRecords v e up) = Some (Inr [])
        \<and> (truthy (env_AIRTABLE_API_KEY e) \<and> truthy (env_AIRTABLE_BASE_ID e) \<longrightarrow>
             (\<exists>res tr. handler v e up ''GET'' = Some (res, tr) \<and> res_statusCode res = 200
                \<and> body_field res ''success'' = Some (JBool True)
                \<and> body_field res ''records'' = Some (JArr [])
                \<and> body_field res ''totalRecords'' = Some (JNum 0))))"
proof (intro conjI impI)
  assume "ok response \<and> body_json response = Inr (Some data) \<and> data_records data = Missing"
  then show "\<exists>p. readResponse v (Resolved response) = Inr p \<and> page_records p = []"
    by (simp add: readResponse_ok)
next
  assume "ok response \<and> body_json response = Inr (Some data) \<and> data_offset data = Missing"
  then show "\<exists>p. readResponse v (Resolved response) = Inr p \<and> page_offset p = None
      \<and> \<not> page_hasMore p"
    by (simp add: readResponse_ok or_else_def)
next
  assume "readResponse v (up 0) = Inr p \<and> page_records p = [] \<and> page_offset p = None"
  then show "map_option fst (fetchAllRecords v e up) = Some (Inr [])"
    by (simp add: single_page_run)
next
  assume p: "readResponse v (up 0) = Inr p \<and> page_records p = [] \<and> page_offset p = None"
    and c: "truthy (env_AIRTABLE_API_KEY e) \<and> truthy (env_AIRTABLE_BASE_ID e)"
  from p have run: "fetchAllRecords v e up = Some (Inr [], [buildRequest v e None])"
    by (simp add: single_page_run)
  from c have k: "truthy (env_AIRTABLE_API_KEY e)" and b: "truthy (env_AIRTABLE_BASE_ID e)"
    by simp_all
  from handler_success [OF k b run]
  show "\<exists>res tr. handler v e up ''GET'' = Some (res, tr) \<and> res_statusCode res = 200
                \<and> body_field res ''success'' = Some (JBool True)
                \<and> body_field res ''records'' = Some (JArr [])
                \<and> body_field res ''totalRecords'' = Some (JNum 0)"
    apply (elim exE conjE)
    subgoal for res
      apply (rule exI [of _ res])
      apply (rule exI [of _ "[buildRequest v e None]"])
      apply (simp add: body_field_def)
      done
    done
qed


lemma bare_body_page:
  "readResponse v (bare_body 0)
     = Inr \<lparr>page_records = [], page_offset = None, page_hasMore = False\<rparr>"
  by (simp add: bare_body_def page_response_def readResponse_def ok_def or_else_def)

lemma empty_collection_page:
  "readResponse v (empty_collection 0)
     = Inr \<lparr>page_records = [], page_offset = None, page_hasMore = False\<rparr>"
  by (simp add: empty_collection_def readResponse_page_response or_else_def)

theorem empty_collection_succeeds_witness:
  "(\<exists>p. readResponse Generic (bare_body 0) = Inr p \<and> page_records p = [])
   \<and> (\<exists>p. readResponse Generic (bare_body 0) = Inr p \<and> page_offset p = None \<and> \<not> page_hasMore p)
   \<and> map_option fst (fetchAllRecords Generic demo_env empty_collection) = Some (Inr [])
   \<and> (\<exists>res tr. handler Generic demo_env empty_collection ''GET'' = Some (res, tr)
         \<and> res_statusCode res = 200
         \<and> body_field res ''success'' = Some (JBool True)
         \<and> body_field res ''records'' = Some (JArr [])
         \<and> body_field res ''totalRecords'' = Some (JNum 0))"
proof -
  define response :: "string response" where
    "response = \<lparr>status = 200, body_text = [], body_reformatted = None,
                 body_json = Inr (Some \<lparr>data_records = Missing, data_offset = Missing\<rparr>)\<rparr>"
  define data :: "string data" where "data = \<lparr>data_records = Missing, data_offset = Missing\<rparr>"
  have bare: "bare_body 0 = Resolved response"
    by (simp add: bare_body_def page_response_def response_def)
  have r: "ok response \<and> body_json response = Inr (Some data) \<and> data_records data = Missing"
    by (simp add: response_def data_def ok_def)
  have t: "ok response \<and> body_json response = Inr (Some data) \<and> data_offset data = Missing"
    by (simp add: response_def data_def ok_def)
  have p: "readResponse Generic (empty_collection 0)
             = Inr \<lparr>page_records = [], page_offset = None, page_hasMore = False\<rparr>
           \<and> page_records \<lparr>page_records = ([]::string list), page_offset = None,
                 page_hasMore = False\<rparr> = []
           \<and> page_offset \<lparr>page_records = ([]::string list), page_offset = None,
                 page_hasMore = False\<rparr> = None"
    by (simp add: empty_collection_page)
  have c: "truthy (env_AIRTABLE_API_KEY demo_env) \<and> truthy (env_AIRTABLE_BASE_ID demo_env)"
    by (simp add: demo_env_configured)
  note inst = empty_collection_succeeds [where response = response and data = data
      and v = Generic and up = empty_collection and e = demo_env
      and p = "\<lparr>page_records = [], page_offset = None, page_hasMore = False\<rparr>"]
  note a1 = inst [THEN conjunct1, THEN mp, OF r]
  note a2 = inst [THEN conjunct2, THEN conjunct1, THEN mp, OF t]
  note a3 = inst [THEN conjunct2, THEN conjunct2, THEN mp, OF p]
  note a4 = a3 [THEN conjunct2, THEN mp, OF c]
  from a1 a2 a3 [THEN conjunct1] a4 show ?thesis
    unfolding bare by (intro conjI)
qed

lemma null_body_error: "readResponse v (null_body i) = Inl nullTypeError"
  by (simp add: readResponse_def null_body_def ok_def)

lemma null_body_run:
  "fetchAllRecords v demo_env null_body = Some (Inl nullTypeError, [buildRequest v demo_env None])"
proof -
  have r: "readResponse v (null_body (length ([]::request list))) = Inl nullTypeError"
    by (rule null_body_error)
  show ?thesis
    unfolding fetchAllRecords_def
    using loop_error [where up = null_body and tr = "[]", OF r] by simp
qed

lemma nullTypeError_status:
  "classifyError Generic nullTypeError = (500, ''Failed to fetch Airtable records'')"
  by (simp add: classifyError_def errorType_def mentions_def nullTypeError_def)

theorem null_body_counterexample:
  "null_body 0 = Resolved \<lparr>status = 200, body_text = ''null'', body_reformatted = Some ''null'',
                           body_json = Inr None\<rparr>
   \<and> readResponse Generic (null_body 0) = Inl nullTypeError
   \<and> readResponse Vercel (null_body 0) = Inl nullTypeError
   \<and> handler Generic demo_env null_body ''GET''
       = Some (\<lparr>res_headers = [(''Access-Control-Allow-Origin'', ''*''),
                               (''Access-Control-Allow-Methods'', ''GET, OPTIONS''),
                               (''Access-Control-Allow-Headers'', ''Content-Type, Authorization''),
                               (''Access-Control-Max-Age'', ''86400''),
                               (''Content-Type'', ''application/json'')],
                res_statusCode = 500,
                res_body = Some (JObj [(''success'', JBool False),
                                       (''error'', JStr ''Failed to fetch Airtable records''),
                                       (''message'', JStr nullTypeError)])\<rparr>,
               [buildRequest Generic demo_env None])"
proof (intro conjI)
  show "null_body 0 = Resolved \<lparr>status = 200, body_text = ''null'',
      body_reformatted = Some ''null'', body_json = Inr None\<rparr>"
    by (simp add: null_body_def)
  show "readResponse Generic (null_body 0) = Inl nullTypeError" by (rule null_body_error)
  show "readResponse Vercel (null_body 0) = Inl nullTypeError" by (rule null_body_error)
  show "handler Generic demo_env null_body ''GET''
       = Some (\<lparr>res_headers = [(''Access-Control-Allow-Origin'', ''*''),
                               (''Access-Control-Allow-Methods'', ''GET, OPTIONS''),
                               (''Access-Control-Allow-Headers'', ''Content-Type, Authorization''),
                               (''Access-Control-Max-Age'', ''86400''),
                               (''Content-Type'', ''application/json'')],
                res_statusCode = 500,
                res_body = Some (JObj [(''success'', JBool False),
                                       (''error'', JStr ''Failed to fetch Airtable records''),
                                       (''message'', JStr nullTypeError)])\<rparr>,
               [buildRequest Generic demo_env None])"
    by (simp add: handler_fetch [OF demo_env_configured] null_body_run nullTypeError_status
          cors_headers send_def demo_env_plain)
qed

end
